theory Spec2Isabelle
  imports Main
begin

section \<open>The system prompt composer of fast_agent/llm/schema/system_prompt.py\<close>

text \<open>
  The source is Python over pydantic models. Three kinds of object are mutated in place:
  the \<open>order\<close> list and the \<open>chips\<close> dict of the one
  \<open>SystemPromptChipsSchema\<close> a \<open>SystemPrompt\<close> owns, and the metadata objects
  (\<open>chip.metadata.ignore = ...\<close>). No statement of the source assigns to a field of
  a chip object, so a chip is a value here, holding a reference to its metadata object.
  Metadata objects live in an explicit store, because two chips can hold the same metadata
  object: \<open>model_copy(update=...)\<close> without \<open>deep=True\<close> copies the field
  dictionary of the model only, and pydantic keeps a model instance that is passed as a
  field value as it is.
\<close>

subsection \<open>Data\<close>

typedecl pyvalue
  \<comment> \<open>the values of extra metadata fields (\<open>ConfigDict(extra="allow")\<close>): never inspected\<close>

record SystemPromptChipMetadataSchema =
  ignore :: bool
  extra :: "(string \<times> pyvalue) list"

type_synonym ref = nat

record heap =
  objs :: "ref \<Rightarrow> SystemPromptChipMetadataSchema"
  next_ref :: ref

record SystemPromptChipSchema =
  name :: string
  content :: string
  metadata :: ref

record SystemPromptChipsSchema =
  order :: "string list"
  splitter :: string
  chips :: "string \<rightharpoonup> SystemPromptChipSchema"

record SystemPrompt =
  sp_chips :: SystemPromptChipsSchema
  sp_to_str :: "(heap \<Rightarrow> SystemPromptChipsSchema \<Rightarrow> string) option"
  sp_to_xml :: "(heap \<Rightarrow> SystemPromptChipsSchema \<Rightarrow> string) option"

datatype PromptType = PromptType_STR | PromptType_XML

text \<open>
  Every \<open>raise\<close> of the source raises \<open>ValueError\<close>; the constructors below are
  its messages. \<open>ChipAlreadyExists\<close> is the spec's DuplicateKeyError,
  \<open>InvalidIndex\<close> (the index and the printed upper bound) its IndexRangeError,
  \<open>ChipDoesNotExist\<close> and \<open>ChipNotInOrder\<close> its KeyNotFoundError,
  \<open>UnsupportedPromptType\<close> its InvalidModeError, and the others its SchemaError.
  \<open>ValidationError\<close> is pydantic's, raised by a model constructor.
\<close>

datatype error =
    UnsupportedChipsSchema
  | UnsupportedChipType string
  | UnsupportedContentType
  | UnsupportedReplaceType
  | UnsupportedPromptType
  | ChipAlreadyExists string
  | InvalidIndex int int
  | ChipDoesNotExist string
  | ChipNotInOrder string
  | ValidationError

text \<open>The arguments of the source's \<open>Union\<close> and \<open>Any\<close> parameters.\<close>

datatype metadata_value =
    MetaObj ref
  | MetaDict "bool option" "(string \<times> pyvalue) list"

record chip_dict =
  d_name :: "string option"
  d_content :: "string option"
  d_metadata :: "metadata_value option"
  d_unknown :: "string list"

datatype chip_value =
    Str string
  | Chip SystemPromptChipSchema
  | Dict chip_dict
  | Other

datatype chips_value =
    ChipsDict "(string \<times> chip_value) list"
  | ChipsOther

record prompt_dict =
  pd_order :: "string list option"
  pd_splitter :: "string option"
  pd_chips :: "chips_value option"

datatype prompt_value =
    PStr string
  | PDict prompt_dict
  | PSchema SystemPromptChipsSchema
  | POther

datatype type_value =
    TypeNone
  | TypeEnum PromptType
  | TypeStr string
  | TypeOther

subsection \<open>Python built-ins\<close>

definition DEFAULT_SYSTEM_PROMPT_CHIP_KEY :: string where
  "DEFAULT_SYSTEM_PROMPT_CHIP_KEY = ''default''"

fun join :: "string \<Rightarrow> string list \<Rightarrow> string" where
  "join sep [] = []"
| "join sep [x] = x"
| "join sep (x # y # ys) = x @ sep @ join sep (y # ys)"

definition list_insert :: "int \<Rightarrow> 'a \<Rightarrow> 'a list \<Rightarrow> 'a list" where
  \<comment> \<open>\<open>list.insert\<close>: a negative index counts from the end, and the position is clamped\<close>
  "list_insert i x xs =
     (let n = int (length xs);
          j = (if i < 0 then max 0 (i + n) else min i n)
      in take (nat j) xs @ x # drop (nat j) xs)"

definition alloc :: "SystemPromptChipMetadataSchema \<Rightarrow> heap \<Rightarrow> ref \<times> heap" where
  "alloc m h = (next_ref h, h\<lparr>objs := (objs h)(next_ref h := m), next_ref := Suc (next_ref h)\<rparr>)"

definition set_ignore :: "ref \<Rightarrow> bool \<Rightarrow> heap \<Rightarrow> heap" where
  \<comment> \<open>\<open>chip.metadata.ignore = b\<close>\<close>
  "set_ignore r b h = h\<lparr>objs := (objs h)(r := (objs h r)\<lparr>ignore := b\<rparr>)\<rparr>"

subsection \<open>The schema classes\<close>

definition metadata_default :: SystemPromptChipMetadataSchema where
  "metadata_default = \<lparr>ignore = False, extra = []\<rparr>"

definition new_chip :: "string \<Rightarrow> string \<Rightarrow> heap \<Rightarrow> SystemPromptChipSchema \<times> heap" where
  \<comment> \<open>\<open>SystemPromptChipSchema(name=n, content=c)\<close>: the default factory makes the metadata\<close>
  "new_chip n c h =
     (case alloc metadata_default h of
        (r, h') \<Rightarrow> (\<lparr>name = n, content = c, metadata = r\<rparr>, h'))"

definition chip_default :: "string \<Rightarrow> heap \<Rightarrow> SystemPromptChipSchema \<times> heap" where
  "chip_default c h = new_chip DEFAULT_SYSTEM_PROMPT_CHIP_KEY c h"

definition chips_default :: "string \<Rightarrow> heap \<Rightarrow> SystemPromptChipsSchema \<times> heap" where
  "chips_default c h =
     (case chip_default c h of
        (chip, h') \<Rightarrow>
          (\<lparr>order = [DEFAULT_SYSTEM_PROMPT_CHIP_KEY],
            splitter = ''\<newline>\<newline>'',
            chips = [DEFAULT_SYSTEM_PROMPT_CHIP_KEY \<mapsto> chip]\<rparr>, h'))"

definition construct_chip :: "chip_dict \<Rightarrow> heap \<Rightarrow> (error + SystemPromptChipSchema) \<times> heap" where
  \<comment> \<open>\<open>SystemPromptChipSchema(**payload)\<close>: \<open>name\<close> and \<open>content\<close> are required,
      other keys are forbidden, a metadata instance is kept and a metadata dict validated\<close>
  "construct_chip p h =
     (if d_unknown p \<noteq> [] then (Inl ValidationError, h)
      else case d_name p of
        None \<Rightarrow> (Inl ValidationError, h)
      | Some n \<Rightarrow>
          (case d_content p of
             None \<Rightarrow> (Inl ValidationError, h)
           | Some c \<Rightarrow>
               (case d_metadata p of
                  None \<Rightarrow> (case new_chip n c h of (chip, h') \<Rightarrow> (Inr chip, h'))
                | Some (MetaObj r) \<Rightarrow> (Inr \<lparr>name = n, content = c, metadata = r\<rparr>, h)
                | Some (MetaDict ig ex) \<Rightarrow>
                    (case alloc \<lparr>ignore = (case ig of None \<Rightarrow> False | Some b \<Rightarrow> b), extra = ex\<rparr> h of
                       (r, h') \<Rightarrow> (Inr \<lparr>name = n, content = c, metadata = r\<rparr>, h')))))"

definition rename :: "string \<Rightarrow> SystemPromptChipSchema \<Rightarrow> SystemPromptChipSchema" where
  \<comment> \<open>\<open>if chip.name != key: chip = chip.model_copy(update={"name": key})\<close>\<close>
  "rename key chip = (if name chip \<noteq> key then chip\<lparr>name := key\<rparr> else chip)"

fun normalize_chip :: "string \<Rightarrow> chip_value \<Rightarrow> heap \<Rightarrow> (error + SystemPromptChipSchema) \<times> heap" where
  "normalize_chip key (Chip c) h = (Inr (rename key c), h)"
| "normalize_chip key (Dict p) h =
     (case construct_chip (p\<lparr>d_name := (case d_name p of None \<Rightarrow> Some key | Some n \<Rightarrow> Some n)\<rparr>) h of
        (Inl e, h') \<Rightarrow> (Inl e, h')
      | (Inr c, h') \<Rightarrow> (Inr (rename key c), h'))"
| "normalize_chip key v h = (Inl (UnsupportedChipType key), h)"

fun from_dict_loop ::
  "(string \<times> chip_value) list \<Rightarrow> (string \<rightharpoonup> SystemPromptChipSchema) \<Rightarrow> heap \<Rightarrow>
   (error + (string \<rightharpoonup> SystemPromptChipSchema)) \<times> heap" where
  "from_dict_loop [] cs h = (Inr cs, h)"
| "from_dict_loop ((key, v) # rest) cs h =
     (case normalize_chip key v h of
        (Inl e, h') \<Rightarrow> (Inl e, h')
      | (Inr c, h') \<Rightarrow> from_dict_loop rest (cs(key \<mapsto> c)) h')"

definition from_dict :: "prompt_dict \<Rightarrow> heap \<Rightarrow> (error + SystemPromptChipsSchema) \<times> heap" where
  "from_dict data h =
     (let order' = (case pd_order data of None \<Rightarrow> [] | Some xs \<Rightarrow> xs);
          splitter' = (case pd_splitter data of None \<Rightarrow> ''\<newline>\<newline>'' | Some s \<Rightarrow> s)
      in case pd_chips data of
           Some (ChipsDict chips_payload) \<Rightarrow>
             (case from_dict_loop chips_payload Map.empty h of
                (Inl e, h') \<Rightarrow> (Inl e, h')
              | (Inr cs, h') \<Rightarrow> (Inr \<lparr>order = order', splitter = splitter', chips = cs\<rparr>, h'))
         | _ \<Rightarrow> (Inl UnsupportedChipsSchema, h))"

fun to_str_loop ::
  "heap \<Rightarrow> (string \<rightharpoonup> SystemPromptChipSchema) \<Rightarrow> string list \<Rightarrow> string list \<Rightarrow> string list" where
  "to_str_loop h cs [] parts = parts"
| "to_str_loop h cs (key # keys) parts =
     (case cs key of
        Some chip \<Rightarrow>
          if \<not> ignore (objs h (metadata chip))
          then to_str_loop h cs keys (parts @ [content chip])
          else to_str_loop h cs keys parts
      | None \<Rightarrow> to_str_loop h cs keys parts)"

definition to_str :: "heap \<Rightarrow> SystemPromptChipsSchema \<Rightarrow> string" where
  "to_str h self = join (splitter self) (to_str_loop h (chips self) (order self) [])"

fun to_xml_loop ::
  "heap \<Rightarrow> (string \<rightharpoonup> SystemPromptChipSchema) \<Rightarrow> string list \<Rightarrow> string list \<Rightarrow> string list" where
  "to_xml_loop h cs [] parts = parts"
| "to_xml_loop h cs (key # keys) parts =
     (case cs key of
        Some chip \<Rightarrow>
          if \<not> ignore (objs h (metadata chip))
          then to_xml_loop h cs keys
                 (parts @ [''<'' @ key @ ''>\<newline>'' @ content chip @ ''\<newline></'' @ key @ ''>''])
          else to_xml_loop h cs keys parts
      | None \<Rightarrow> to_xml_loop h cs keys parts)"

definition to_xml :: "heap \<Rightarrow> SystemPromptChipsSchema \<Rightarrow> string" where
  "to_xml h self = join ''\<newline>'' (to_xml_loop h (chips self) (order self) [])"

subsection \<open>The class SystemPrompt\<close>

text \<open>
  A method takes the composer and the store and returns its result with both, also when
  it raises: what a failed call has changed by then stays changed. \<open>get_chips\<close>, the
  deep copy handed to outside readers, takes no part in the properties below and is left out.
\<close>

definition init ::
  "prompt_value \<Rightarrow> (heap \<Rightarrow> SystemPromptChipsSchema \<Rightarrow> string) option \<Rightarrow>
   (heap \<Rightarrow> SystemPromptChipsSchema \<Rightarrow> string) option \<Rightarrow> heap \<Rightarrow> (error + SystemPrompt) \<times> heap" where
  "init content_arg to_str_arg to_xml_arg h =
     (case content_arg of
        PStr s \<Rightarrow>
          (case chips_default s h of
             (cs, h') \<Rightarrow> (Inr \<lparr>sp_chips = cs, sp_to_str = to_str_arg, sp_to_xml = to_xml_arg\<rparr>, h'))
      | PDict d \<Rightarrow>
          (case from_dict d h of
             (Inl e, h') \<Rightarrow> (Inl e, h')
           | (Inr cs, h') \<Rightarrow> (Inr \<lparr>sp_chips = cs, sp_to_str = to_str_arg, sp_to_xml = to_xml_arg\<rparr>, h'))
      | PSchema cs \<Rightarrow> (Inr \<lparr>sp_chips = cs, sp_to_str = to_str_arg, sp_to_xml = to_xml_arg\<rparr>, h)
      | POther \<Rightarrow> (Inl UnsupportedContentType, h))"

definition get_system_prompt :: "SystemPrompt \<Rightarrow> heap \<Rightarrow> type_value \<Rightarrow> error + string" where
  "get_system_prompt self h type_arg =
     (if type_arg = TypeNone \<or> type_arg = TypeEnum PromptType_STR \<or> type_arg = TypeStr ''str'' then
        (case sp_to_str self of
           Some f \<Rightarrow> Inr (f h (sp_chips self))
         | None \<Rightarrow> Inr (to_str h (sp_chips self)))
      else if type_arg = TypeEnum PromptType_XML \<or> type_arg = TypeStr ''xml'' then
        (case sp_to_xml self of
           Some f \<Rightarrow> Inr (f h (sp_chips self))
         | None \<Rightarrow> Inr (to_xml h (sp_chips self)))
      else Inl UnsupportedPromptType)"

definition build_chip :: "string \<Rightarrow> chip_value \<Rightarrow> heap \<Rightarrow> (error + SystemPromptChipSchema) \<times> heap" where
  \<comment> \<open>the branch on \<open>isinstance(content, str)\<close> that add, insert and update share\<close>
  "build_chip key content_arg h =
     (case content_arg of
        Str s \<Rightarrow> (case new_chip key s h of (chip, h') \<Rightarrow> (Inr chip, h'))
      | _ \<Rightarrow> normalize_chip key content_arg h)"

definition store_chip :: "string \<Rightarrow> SystemPromptChipSchema \<Rightarrow> SystemPrompt \<Rightarrow> SystemPrompt" where
  \<comment> \<open>\<open>self.chips.chips[key] = chip\<close>\<close>
  "store_chip key chip self =
     self\<lparr>sp_chips := (sp_chips self)\<lparr>chips := (chips (sp_chips self))(key \<mapsto> chip)\<rparr>\<rparr>"

definition set_order :: "string list \<Rightarrow> SystemPrompt \<Rightarrow> SystemPrompt" where
  "set_order xs self = self\<lparr>sp_chips := (sp_chips self)\<lparr>order := xs\<rparr>\<rparr>"

definition append_if_missing :: "string \<Rightarrow> SystemPrompt \<Rightarrow> SystemPrompt" where
  \<comment> \<open>\<open>if key not in self.chips.order: self.chips.order.append(key)\<close>\<close>
  "append_if_missing key self =
     (if key \<notin> set (order (sp_chips self))
      then set_order (order (sp_chips self) @ [key]) self
      else self)"

definition add ::
  "string \<Rightarrow> chip_value \<Rightarrow> SystemPrompt \<Rightarrow> heap \<Rightarrow> (error + SystemPromptChipSchema) \<times> SystemPrompt \<times> heap" where
  "add key content_arg self h =
     (if chips (sp_chips self) key \<noteq> None then (Inl (ChipAlreadyExists key), self, h)
      else case build_chip key content_arg h of
        (Inl e, h') \<Rightarrow> (Inl e, self, h')
      | (Inr chip, h') \<Rightarrow> (Inr chip, append_if_missing key (store_chip key chip self), h'))"

definition insert_chip ::
  "string \<Rightarrow> chip_value \<Rightarrow> int \<Rightarrow> SystemPrompt \<Rightarrow> heap \<Rightarrow>
   (error + SystemPromptChipSchema) \<times> SystemPrompt \<times> heap" where
  "insert_chip key content_arg index self h =
     (if chips (sp_chips self) key \<noteq> None then (Inl (ChipAlreadyExists key), self, h)
      else if index < 0 \<or> index > int (length (order (sp_chips self)))
      then (Inl (InvalidIndex index (int (length (order (sp_chips self))))), self, h)
      else case build_chip key content_arg h of
        (Inl e, h') \<Rightarrow> (Inl e, self, h')
      | (Inr chip, h') \<Rightarrow>
          (Inr chip,
           set_order (list_insert index key (order (sp_chips self))) (store_chip key chip self),
           h'))"

definition move :: "string \<Rightarrow> int \<Rightarrow> SystemPrompt \<Rightarrow> heap \<Rightarrow> (error + unit) \<times> SystemPrompt \<times> heap" where
  "move key index self h =
     (if chips (sp_chips self) key = None then (Inl (ChipDoesNotExist key), self, h)
      else if key \<notin> set (order (sp_chips self)) then (Inl (ChipNotInOrder key), self, h)
      else if index < 0 \<or> index \<ge> int (length (order (sp_chips self)))
      then (Inl (InvalidIndex index (int (length (order (sp_chips self))) - 1)), self, h)
      else (Inr (), set_order (list_insert index key (remove1 key (order (sp_chips self)))) self, h))"

definition remove_chip :: "string \<Rightarrow> SystemPrompt \<Rightarrow> heap \<Rightarrow> (error + bool) \<times> SystemPrompt \<times> heap" where
  "remove_chip key self h =
     (if chips (sp_chips self) key = None then (Inr False, self, h)
      else (Inr True,
            self\<lparr>sp_chips := (sp_chips self)
              \<lparr>chips := (chips (sp_chips self))(key := None),
               order := filter (\<lambda>chip_key. chip_key \<noteq> key) (order (sp_chips self))\<rparr>\<rparr>,
            h))"

definition get :: "string \<Rightarrow> SystemPrompt \<Rightarrow> SystemPromptChipSchema option" where
  "get key self = chips (sp_chips self) key"

definition ignore_chip :: "string \<Rightarrow> SystemPrompt \<Rightarrow> heap \<Rightarrow> (error + string) \<times> SystemPrompt \<times> heap" where
  "ignore_chip key self h =
     (case get key self of
        None \<Rightarrow> (Inl (ChipDoesNotExist key), self, h)
      | Some chip \<Rightarrow> (Inr key, self, set_ignore (metadata chip) True h))"

definition wakeup :: "string \<Rightarrow> SystemPrompt \<Rightarrow> heap \<Rightarrow> (error + string) \<times> SystemPrompt \<times> heap" where
  "wakeup key self h =
     (case get key self of
        None \<Rightarrow> (Inl (ChipDoesNotExist key), self, h)
      | Some chip \<Rightarrow> (Inr key, self, set_ignore (metadata chip) False h))"

fun wakeup_all_loop ::
  "(string \<rightharpoonup> SystemPromptChipSchema) \<Rightarrow> string list \<Rightarrow> string list \<Rightarrow> heap \<Rightarrow> string list \<times> heap" where
  "wakeup_all_loop cs [] waked_up_keys h = (waked_up_keys, h)"
| "wakeup_all_loop cs (key # keys) waked_up_keys h =
     (case cs key of
        Some chip \<Rightarrow>
          if ignore (objs h (metadata chip))
          then wakeup_all_loop cs keys (waked_up_keys @ [key]) (set_ignore (metadata chip) False h)
          else wakeup_all_loop cs keys waked_up_keys h
      | None \<Rightarrow> wakeup_all_loop cs keys waked_up_keys h)"

definition wakeup_all :: "SystemPrompt \<Rightarrow> heap \<Rightarrow> (error + string list) \<times> SystemPrompt \<times> heap" where
  "wakeup_all self h =
     (case wakeup_all_loop (chips (sp_chips self)) (order (sp_chips self)) [] h of
        (waked_up_keys, h') \<Rightarrow> (Inr waked_up_keys, self, h'))"

definition toggle :: "string \<Rightarrow> SystemPrompt \<Rightarrow> heap \<Rightarrow> (error + string) \<times> SystemPrompt \<times> heap" where
  "toggle key self h =
     (case get key self of
        None \<Rightarrow> (Inl (ChipDoesNotExist key), self, h)
      | Some chip \<Rightarrow>
          (Inr key, self, set_ignore (metadata chip) (\<not> ignore (objs h (metadata chip))) h))"

definition replace_chips :: "prompt_value \<Rightarrow> SystemPrompt \<Rightarrow> heap \<Rightarrow> (error + unit) \<times> SystemPrompt \<times> heap" where
  "replace_chips content_arg self h =
     (case content_arg of
        PStr s \<Rightarrow> (case chips_default s h of (cs, h') \<Rightarrow> (Inr (), self\<lparr>sp_chips := cs\<rparr>, h'))
      | PDict d \<Rightarrow>
          (case from_dict d h of
             (Inl e, h') \<Rightarrow> (Inl e, self, h')
           | (Inr cs, h') \<Rightarrow> (Inr (), self\<lparr>sp_chips := cs\<rparr>, h'))
      | PSchema cs \<Rightarrow> (Inr (), self\<lparr>sp_chips := cs\<rparr>, h)
      | POther \<Rightarrow> (Inl UnsupportedReplaceType, self, h))"

definition update :: "chip_value \<Rightarrow> string \<Rightarrow> SystemPrompt \<Rightarrow> heap \<Rightarrow> (error + unit) \<times> SystemPrompt \<times> heap" where
  "update content_arg key self h =
     (case build_chip key content_arg h of
        (Inl e, h') \<Rightarrow> (Inl e, self, h')
      | (Inr chip, h') \<Rightarrow> (Inr (), append_if_missing key (store_chip key chip self), h'))"

subsection \<open>Fixtures\<close>

text \<open>
  The store before anything is constructed, and the composer that \<open>build_prompt()\<close>
  of tests/test_system_prompt.py constructs: order a, b, splitter two newlines, chips a and b.
\<close>

definition empty_heap :: heap where
  "empty_heap = \<lparr>objs = (\<lambda>_. metadata_default), next_ref = 0\<rparr>"

definition scenario_dict :: prompt_dict where
  "scenario_dict =
     \<lparr>pd_order = Some [''a'', ''b''],
      pd_splitter = Some ''\<newline>\<newline>'',
      pd_chips = Some (ChipsDict
        [(''a'', Dict \<lparr>d_name = Some ''a'', d_content = Some ''A'', d_metadata = None, d_unknown = []\<rparr>),
         (''b'', Dict \<lparr>d_name = Some ''b'', d_content = Some ''B'', d_metadata = None, d_unknown = []\<rparr>)])\<rparr>"

definition build_prompt :: "(error + SystemPrompt) \<times> heap" where
  "build_prompt = init (PDict scenario_dict) None None empty_heap"

definition prompt_ab :: SystemPrompt where
  "prompt_ab = projr (fst build_prompt)"

definition heap_ab :: heap where
  "heap_ab = snd build_prompt"

text \<open>
  A composer with a dangling order entry: \<open>SystemPrompt({"order": ["default"], "chips": {}})\<close>.
\<close>

definition dangling_dict :: prompt_dict where
  "dangling_dict = \<lparr>pd_order = Some [''default''], pd_splitter = None, pd_chips = Some (ChipsDict [])\<rparr>"

definition prompt_dangling :: SystemPrompt where
  "prompt_dangling = projr (fst (init (PDict dangling_dict) None None empty_heap))"

definition heap_dangling :: heap where
  "heap_dangling = snd (init (PDict dangling_dict) None None empty_heap)"

subsection \<open>Flat-text rendering in the spec's words\<close>

text \<open>
  The spec's \<open>toFlatText\<close>: the contents of the chips of order that exist and are not
  ignored, in sequence, joined with the splitter.
\<close>

definition surviving_content :: "heap \<Rightarrow> SystemPromptChipsSchema \<Rightarrow> string \<Rightarrow> string option" where
  "surviving_content h self key =
     (case chips self key of
        None \<Rightarrow> None
      | Some chip \<Rightarrow> if ignore (objs h (metadata chip)) then None else Some (content chip))"

definition toFlatText :: "heap \<Rightarrow> SystemPromptChipsSchema \<Rightarrow> string" where
  "toFlatText h self = join (splitter self) (List.map_filter (surviving_content h self) (order self))"

text \<open>The store after \<open>prompt.ignore("a")\<close> on the composer of the tests.\<close>

definition heap_a_ignored :: heap where
  "heap_a_ignored = snd (snd (ignore_chip ''a'' prompt_ab heap_ab))"

text \<open>A composer constructed with both rendering functions overridden.\<close>

definition custom_to_str :: "heap \<Rightarrow> SystemPromptChipsSchema \<Rightarrow> string" where
  "custom_to_str h self = ''custom: '' @ join '', '' (order self)"

definition custom_to_xml :: "heap \<Rightarrow> SystemPromptChipsSchema \<Rightarrow> string" where
  "custom_to_xml h self = ''<custom/>''"

definition prompt_custom :: SystemPrompt where
  "prompt_custom = projr (fst (init (PDict scenario_dict) (Some custom_to_str) (Some custom_to_xml) empty_heap))"

subsection \<open>The name invariant\<close>

text \<open>Every chip of the collection is named by the key it is stored under.\<close>

definition names_ok :: "SystemPromptChipsSchema \<Rightarrow> bool" where
  "names_ok cs = (\<forall>key chip. chips cs key = Some chip \<longrightarrow> name chip = key)"

text \<open>
  A chip constructed as \<open>SystemPromptChipSchema(name="b", content="B")\<close>, and the
  collection \<open>SystemPromptChipsSchema(order=["a"], chips={"a": chip_b})\<close> that holds it
  under another key.
\<close>

definition chip_b :: SystemPromptChipSchema where
  "chip_b = fst (new_chip ''b'' ''B'' empty_heap)"

definition heap_b :: heap where
  "heap_b = snd (new_chip ''b'' ''B'' empty_heap)"

definition mismatched_schema :: SystemPromptChipsSchema where
  "mismatched_schema = \<lparr>order = [''a''], splitter = ''\<newline>\<newline>'', chips = [''a'' \<mapsto> chip_b]\<rparr>"

text \<open>
  The same chip given as a record, \<open>{"order": ["a"], "chips": {"a": {"name": "b", "content": "B"}}}\<close>,
  and the composer \<open>SystemPrompt("x")\<close> constructed after \<open>chip_b\<close>.
\<close>

definition mismatched_dict :: prompt_dict where
  "mismatched_dict =
     \<lparr>pd_order = Some [''a''],
      pd_splitter = None,
      pd_chips = Some (ChipsDict
        [(''a'', Dict \<lparr>d_name = Some ''b'', d_content = Some ''B'', d_metadata = None, d_unknown = []\<rparr>)])\<rparr>"

definition prompt_x :: SystemPrompt where
  "prompt_x = projr (fst (init (PStr ''x'') None None heap_b))"

definition heap_x :: heap where
  "heap_x = snd (init (PStr ''x'') None None heap_b)"

subsection \<open>Ignored keys and the metadata objects of order\<close>

text \<open>
  A key is ignored in a store when its chip exists and the metadata object of the chip has
  \<open>ignore\<close> set. \<open>order_refs\<close> lists the metadata objects of the chips of a key
  list, in sequence; it has a repetition when a key occurs twice or two keys hold chips
  with one metadata object.
\<close>

definition ignored :: "heap \<Rightarrow> SystemPromptChipsSchema \<Rightarrow> string \<Rightarrow> bool" where
  "ignored h cs key =
     (case chips cs key of None \<Rightarrow> False | Some chip \<Rightarrow> ignore (objs h (metadata chip)))"

definition order_refs :: "SystemPromptChipsSchema \<Rightarrow> string list \<Rightarrow> ref list" where
  "order_refs cs keys = List.map_filter (\<lambda>key. map_option metadata (chips cs key)) keys"

text \<open>The composer with chips a and b ignored, c awake, and order a, b, c.\<close>

definition abc_dict :: prompt_dict where
  "abc_dict =
     \<lparr>pd_order = Some [''a'', ''b'', ''c''],
      pd_splitter = None,
      pd_chips = Some (ChipsDict
        [(''a'', Dict \<lparr>d_name = None, d_content = Some ''A'',
                        d_metadata = Some (MetaDict (Some True) []), d_unknown = []\<rparr>),
         (''b'', Dict \<lparr>d_name = None, d_content = Some ''B'',
                        d_metadata = Some (MetaDict (Some True) []), d_unknown = []\<rparr>),
         (''c'', Dict \<lparr>d_name = None, d_content = Some ''C'',
                        d_metadata = Some (MetaDict (Some False) []), d_unknown = []\<rparr>)])\<rparr>"

definition prompt_abc :: SystemPrompt where
  "prompt_abc = projr (fst (init (PDict abc_dict) None None empty_heap))"

definition heap_abc :: heap where
  "heap_abc = snd (init (PDict abc_dict) None None empty_heap)"

text \<open>
  Two keys with one metadata object, by the methods alone:
  \<open>p = SystemPrompt("x"); p.add("b", chip_b); p.add("c", chip_b); p.ignore("b")\<close>.
  The second \<open>add\<close> stores \<open>chip_b.model_copy(update={"name": "c"})\<close>, which
  holds the metadata object of \<open>chip_b\<close>.
\<close>

definition shared_steps :: "SystemPrompt \<times> heap" where
  "shared_steps =
     (case init (PStr ''x'') None None heap_b of
        (r0, h0) \<Rightarrow>
          (case add ''b'' (Chip chip_b) (projr r0) h0 of
             (r1, p1, h1) \<Rightarrow>
               (case add ''c'' (Chip chip_b) p1 h1 of
                  (r2, p2, h2) \<Rightarrow>
                    (case ignore_chip ''b'' p2 h2 of
                       (r3, p3, h3) \<Rightarrow> (p3, h3)))))"

definition prompt_shared :: SystemPrompt where
  "prompt_shared = fst shared_steps"

definition heap_shared :: heap where
  "heap_shared = snd shared_steps"

section \<open>Properties\<close>

lemmas model_defs =
  init_def from_dict_def construct_chip_def new_chip_def alloc_def metadata_default_def
  rename_def to_str_def to_xml_def chips_default_def chip_default_def
  DEFAULT_SYSTEM_PROMPT_CHIP_KEY_def build_chip_def store_chip_def set_order_def
  append_if_missing_def set_ignore_def get_def

lemmas fixture_defs = empty_heap_def scenario_dict_def build_prompt_def prompt_ab_def heap_ab_def

lemma length_list_insert: "length (list_insert i x xs) = Suc (length xs)"
  by (simp add: list_insert_def Let_def)

lemma list_insert_in_range:
  "0 \<le> i \<Longrightarrow> i \<le> int (length xs) \<Longrightarrow> list_insert i x xs = take (nat i) xs @ x # drop (nat i) xs"
  by (simp add: list_insert_def Let_def min_def)

lemma prompt_ab_a: "chips (sp_chips prompt_ab) ''a'' \<noteq> None"
  by (simp add: fixture_defs model_defs)

subsection \<open>Duplicate keys\<close>

text \<open>
  C4. When \<open>chips\<close> already holds \<open>key\<close>, \<open>add\<close> and \<open>insert\<close> raise the
  already-exists error (DuplicateKeyError), whatever the content and the index are, and the
  composer and the store they return are the ones they were given: the chips mapping and the
  order list are unchanged.
\<close>

theorem duplicate_key_rejected:
  "chips (sp_chips self) key \<noteq> None \<Longrightarrow>
   add key content_arg self h = (Inl (ChipAlreadyExists key), self, h) \<and>
   insert_chip key content_arg index self h = (Inl (ChipAlreadyExists key), self, h)"
  by (simp add: add_def insert_chip_def)

theorem duplicate_key_rejected_witness:
  "chips (sp_chips prompt_ab) ''a'' \<noteq> None \<and>
   add ''a'' (Str ''dup'') prompt_ab heap_ab = (Inl (ChipAlreadyExists ''a''), prompt_ab, heap_ab) \<and>
   insert_chip ''a'' (Str ''dup'') 0 prompt_ab heap_ab = (Inl (ChipAlreadyExists ''a''), prompt_ab, heap_ab)"
  using duplicate_key_rejected [OF prompt_ab_a] prompt_ab_a by simp

subsection \<open>Helper lemmas on the order list and the stored chips\<close>

lemma build_chip_Str_eq:
  "build_chip key (Str s) h = (Inr (fst (new_chip key s h)), snd (new_chip key s h))"
  by (simp add: build_chip_def split: prod.splits)

lemma insert_chip_ok:
  assumes "chips (sp_chips self) key = None"
    and "0 \<le> i" and "i \<le> int (length (order (sp_chips self)))"
    and "build_chip key c h = (Inr chip, h')"
  shows "insert_chip key c i self h =
     (Inr chip, set_order (take (nat i) (order (sp_chips self)) @ key # drop (nat i) (order (sp_chips self)))
        (store_chip key chip self), h')"
  using assms by (simp add: insert_chip_def list_insert_in_range)

lemma order_set_order [simp]: "order (sp_chips (set_order xs self)) = xs"
  by (simp add: set_order_def)

lemma order_store_chip [simp]: "order (sp_chips (store_chip key chip self)) = order (sp_chips self)"
  by (simp add: store_chip_def)

lemma chips_set_order [simp]: "chips (sp_chips (set_order xs self)) = chips (sp_chips self)"
  by (simp add: set_order_def)

lemma chips_store_chip [simp]:
  "chips (sp_chips (store_chip key chip self)) = (chips (sp_chips self))(key \<mapsto> chip)"
  by (simp add: store_chip_def)

lemma insert_chip_success_order:
  assumes "insert_chip key c i self h = (Inr chip, self', h')"
  shows "chips (sp_chips self) key = None \<and> 0 \<le> i \<and> i \<le> int (length (order (sp_chips self))) \<and>
         order (sp_chips self') = list_insert i key (order (sp_chips self))"
  using assms by (auto simp: insert_chip_def split: if_splits prod.splits sum.splits)

lemma move_success_order:
  assumes "move key i self h = (Inr u, self', h')"
  shows "0 \<le> i \<and> i < int (length (order (sp_chips self))) \<and> key \<in> set (order (sp_chips self)) \<and>
         order (sp_chips self') = list_insert i key (remove1 key (order (sp_chips self))) \<and> h' = h"
  using assms by (auto simp: move_def split: if_splits)

lemma prompt_ab_order: "order (sp_chips prompt_ab) = [''a'', ''b'']"
  by (simp add: fixture_defs model_defs)

lemma prompt_ab_x: "chips (sp_chips prompt_ab) ''x'' = None"
  by (simp add: fixture_defs model_defs)

lemma count_list_take_drop: "count_list (take n xs @ x # drop n xs) x = Suc (count_list xs x)"
proof -
  have "count_list xs x = count_list (take n xs @ drop n xs) x" by simp
  also have "\<dots> = count_list (take n xs) x + count_list (drop n xs) x"
    by (simp only: count_list_append)
  finally show ?thesis by simp
qed

lemma add_ok:
  assumes "chips (sp_chips self) key = None" and "build_chip key c h = (Inr chip, h')"
  shows "add key c self h = (Inr chip, append_if_missing key (store_chip key chip self), h')"
  using assms by (simp add: add_def)

lemma order_append_if_missing:
  "order (sp_chips (append_if_missing key self)) =
     (if key \<in> set (order (sp_chips self)) then order (sp_chips self) else order (sp_chips self) @ [key])"
  by (simp add: append_if_missing_def)

lemma prompt_dangling_eq:
  "init (PDict dangling_dict) None None empty_heap = (Inr prompt_dangling, heap_dangling)"
  by (simp add: prompt_dangling_def heap_dangling_def dangling_dict_def init_def from_dict_def)

lemma prompt_dangling_order: "order (sp_chips prompt_dangling) = [''default'']"
  by (simp add: prompt_dangling_def dangling_dict_def init_def from_dict_def)

lemma prompt_dangling_chips: "chips (sp_chips prompt_dangling) = Map.empty"
  by (simp add: prompt_dangling_def dangling_dict_def init_def from_dict_def)

lemma build_chip_name:
  "build_chip key c h = (Inr chip, h') \<Longrightarrow> name chip = key"
  by (cases c) (auto simp: build_chip_def new_chip_def alloc_def rename_def construct_chip_def
      split: prod.splits sum.splits option.splits if_splits metadata_value.splits)

lemma build_chip_errors:
  "build_chip key c h = (Inl e, h') \<Longrightarrow> (e = UnsupportedChipType key \<or> e = ValidationError) \<and> h' = h"
  by (cases c) (auto simp: build_chip_def new_chip_def alloc_def rename_def construct_chip_def
      split: prod.splits sum.splits option.splits if_splits metadata_value.splits)

lemma map_filter_append': "List.map_filter f (xs @ ys) = List.map_filter f xs @ List.map_filter f ys"
  by (simp add: List.map_filter_def)

lemma to_str_loop_eq:
  "to_str_loop h (chips self) keys parts = parts @ List.map_filter (surviving_content h self) keys"
  by (induction keys arbitrary: parts)
     (auto simp: surviving_content_def split: option.splits)

lemma to_str_order:
  "to_str h (self\<lparr>order := keys\<rparr>) = join (splitter self) (List.map_filter (surviving_content h self) keys)"
proof -
  have "surviving_content h (self\<lparr>order := keys\<rparr>) = surviving_content h self"
    by (rule ext) (simp add: surviving_content_def)
  then show ?thesis
    using to_str_loop_eq [of h "self\<lparr>order := keys\<rparr>" keys "[]"] by (simp add: to_str_def)
qed

lemma map_filter_all_None:
  "(\<forall>key \<in> set keys. f key = None) \<Longrightarrow> List.map_filter f keys = []"
  by (induction keys) auto

lemma prompt_ab_chips:
  "chips (sp_chips prompt_ab) =
     [''a'' \<mapsto> \<lparr>name = ''a'', content = ''A'', metadata = 0\<rparr>,
      ''b'' \<mapsto> \<lparr>name = ''b'', content = ''B'', metadata = 1\<rparr>]"
  by (simp add: fixture_defs model_defs)

lemma prompt_ab_splitter: "splitter (sp_chips prompt_ab) = ''\<newline>\<newline>''"
  by (simp add: fixture_defs model_defs)

lemma heap_ab_ignore: "ignore (objs heap_ab r) = False"
  by (simp add: fixture_defs model_defs)

lemma heap_a_ignored_ignore: "ignore (objs heap_a_ignored r) = (r = 0)"
  by (simp add: heap_a_ignored_def ignore_chip_def get_def prompt_ab_chips set_ignore_def heap_ab_ignore)

lemma prompt_ab_renderers: "sp_to_str prompt_ab = None \<and> sp_to_xml prompt_ab = None"
  by (simp add: fixture_defs model_defs)

lemma prompt_custom_eq:
  "init (PDict scenario_dict) (Some custom_to_str) (Some custom_to_xml) empty_heap = (Inr prompt_custom, heap_ab)"
  by (simp add: prompt_custom_def fixture_defs model_defs)

lemma prompt_custom_order: "order (sp_chips prompt_custom) = [''a'', ''b'']"
  by (simp add: prompt_custom_def fixture_defs model_defs)

lemma to_xml_prompt_ab:
  "to_xml heap_ab (sp_chips prompt_ab) = ''<a>\<newline>A\<newline></a>\<newline><b>\<newline>B\<newline></b>''"
  by (simp add: to_xml_def prompt_ab_chips prompt_ab_order heap_ab_ignore)

lemma to_str_prompt_ab: "to_str heap_ab (sp_chips prompt_ab) = ''A\<newline>\<newline>B''"
  by (simp add: to_str_def prompt_ab_chips prompt_ab_order prompt_ab_splitter heap_ab_ignore)

lemma build_prompt_eq: "build_prompt = (Inr prompt_ab, heap_ab)"
  by (simp add: fixture_defs model_defs)

lemma rename_name [simp]: "name (rename key chip) = key"
  by (simp add: rename_def)

lemma rename_fields [simp]:
  "content (rename key chip) = content chip" "metadata (rename key chip) = metadata chip"
  by (simp_all add: rename_def)

lemma normalize_chip_name:
  "normalize_chip key v h = (Inr chip, h') \<Longrightarrow> name chip = key"
  by (cases v) (auto split: prod.splits sum.splits)

lemma from_dict_loop_names:
  "from_dict_loop xs cs h = (Inr cs', h') \<Longrightarrow>
   (\<forall>key chip. cs key = Some chip \<longrightarrow> name chip = key) \<Longrightarrow>
   (\<forall>key chip. cs' key = Some chip \<longrightarrow> name chip = key)"
proof (induction xs arbitrary: cs h)
  case Nil
  then show ?case by simp
next
  case (Cons x xs)
  obtain k v where x: "x = (k, v)" by (cases x)
  from Cons.prems(1) x obtain c h1 where
    n: "normalize_chip k v h = (Inr c, h1)" and
    r: "from_dict_loop xs (cs(k \<mapsto> c)) h1 = (Inr cs', h')"
    by (auto split: prod.splits sum.splits)
  have "\<forall>key chip. (cs(k \<mapsto> c)) key = Some chip \<longrightarrow> name chip = key"
    using Cons.prems(2) normalize_chip_name [OF n] by auto
  from Cons.IH [OF r this] show ?case .
qed

lemma from_dict_names: "from_dict d h = (Inr cs, h') \<Longrightarrow> names_ok cs"
proof -
  assume a: "from_dict d h = (Inr cs, h')"
  then obtain payload m where
    l: "from_dict_loop payload Map.empty h = (Inr m, h')" and c: "chips cs = m"
    by (auto simp: from_dict_def Let_def split: option.splits chips_value.splits prod.splits sum.splits)
  from from_dict_loop_names [OF l] c show ?thesis by (simp add: names_ok_def)
qed

lemma chips_default_names: "names_ok (fst (chips_default s h))"
  by (simp add: chips_default_def chip_default_def new_chip_def alloc_def names_ok_def split: prod.splits)

lemma names_ok_store:
  "names_ok (sp_chips self) \<Longrightarrow> name chip = key \<Longrightarrow> names_ok (sp_chips (store_chip key chip self))"
  by (simp add: names_ok_def)

lemma names_ok_set_order [simp]: "names_ok (sp_chips (set_order xs self)) = names_ok (sp_chips self)"
  by (simp add: names_ok_def)

lemma names_ok_append_if_missing [simp]:
  "names_ok (sp_chips (append_if_missing key self)) = names_ok (sp_chips self)"
  by (simp add: append_if_missing_def)

lemma add_names: "names_ok (sp_chips self) \<Longrightarrow> names_ok (sp_chips (fst (snd (add key c self h))))"
  by (auto simp: add_def names_ok_store build_chip_name split: prod.splits sum.splits)

lemma insert_chip_names:
  "names_ok (sp_chips self) \<Longrightarrow> names_ok (sp_chips (fst (snd (insert_chip key c i self h))))"
  by (auto simp: insert_chip_def names_ok_store build_chip_name split: prod.splits sum.splits)

lemma update_names: "names_ok (sp_chips self) \<Longrightarrow> names_ok (sp_chips (fst (snd (update c key self h))))"
  by (auto simp: update_def names_ok_store build_chip_name split: prod.splits sum.splits)

lemma move_names: "names_ok (sp_chips self) \<Longrightarrow> names_ok (sp_chips (fst (snd (move key i self h))))"
  by (simp add: move_def)

lemma remove_chip_names:
  "names_ok (sp_chips self) \<Longrightarrow> names_ok (sp_chips (fst (snd (remove_chip key self h))))"
  by (simp add: remove_chip_def names_ok_def)

lemma flag_ops_self:
  "fst (snd (ignore_chip key self h)) = self" "fst (snd (wakeup key self h)) = self"
  "fst (snd (toggle key self h)) = self" "fst (snd (wakeup_all self h)) = self"
  by (simp_all add: ignore_chip_def wakeup_def toggle_def wakeup_all_def split: option.splits prod.splits)

lemma replace_chips_names:
  "names_ok (sp_chips self) \<Longrightarrow> names_ok (sp_chips (fst (snd (replace_chips (PStr s) self h))))"
  "names_ok (sp_chips self) \<Longrightarrow> names_ok (sp_chips (fst (snd (replace_chips (PDict d) self h))))"
  "names_ok (sp_chips self) \<Longrightarrow> names_ok (sp_chips (fst (snd (replace_chips POther self h))))"
proof -
  show "names_ok (sp_chips (fst (snd (replace_chips (PStr s) self h))))"
    using chips_default_names [of s h] by (auto simp: replace_chips_def split: prod.splits)
  assume ok: "names_ok (sp_chips self)"
  show "names_ok (sp_chips (fst (snd (replace_chips (PDict d) self h))))"
    using ok from_dict_names [of d h]
    by (auto simp: replace_chips_def split: prod.splits sum.splits)
  show "names_ok (sp_chips (fst (snd (replace_chips POther self h))))"
    using ok by (simp add: replace_chips_def)
qed

lemma init_names:
  "init (PStr s) f g h = (Inr self, h') \<Longrightarrow> names_ok (sp_chips self)"
  "init (PDict d) f g h = (Inr self, h') \<Longrightarrow> names_ok (sp_chips self)"
proof -
  show "init (PStr s) f g h = (Inr self, h') \<Longrightarrow> names_ok (sp_chips self)"
    using chips_default_names [of s h] by (auto simp: init_def split: prod.splits)
  show "init (PDict d) f g h = (Inr self, h') \<Longrightarrow> names_ok (sp_chips self)"
    using from_dict_names [of d h] by (auto simp: init_def split: prod.splits sum.splits)
qed

lemma prompt_ab_names: "names_ok (sp_chips prompt_ab)"
  by (simp add: names_ok_def prompt_ab_chips)

lemma set_order_refs:
  "set (order_refs cs keys) = {metadata chip | key chip. key \<in> set keys \<and> chips cs key = Some chip}"
  by (induction keys) (auto simp: order_refs_def split: option.splits)

lemma order_refs_Cons:
  "order_refs cs (key # keys) =
     (case chips cs key of None \<Rightarrow> order_refs cs keys | Some chip \<Rightarrow> metadata chip # order_refs cs keys)"
  by (simp add: order_refs_def split: option.splits)

lemma order_refs_Nil [simp]: "order_refs cs [] = []"
  by (simp add: order_refs_def)

lemma clear_ignore_idem: "\<not> ignore m \<Longrightarrow> m\<lparr>ignore := False\<rparr> = m"
  by (cases m) simp

lemma wakeup_all_loop_heap:
  "snd (wakeup_all_loop (chips cs) keys waked h) =
     h\<lparr>objs := (\<lambda>r. if r \<in> set (order_refs cs keys) then (objs h r)\<lparr>ignore := False\<rparr> else objs h r)\<rparr>"
proof (induction keys arbitrary: waked h)
  case Nil
  then show ?case by simp
next
  case (Cons key keys)
  show ?case
  proof (cases "chips cs key")
    case None
    then show ?thesis using Cons.IH by (simp add: order_refs_Cons)
  next
    case (Some chip)
    show ?thesis
    proof (cases "ignore (objs h (metadata chip))")
      case True
      have "(\<lambda>r. if r \<in> set (order_refs cs keys)
                 then (objs (set_ignore (metadata chip) False h) r)\<lparr>ignore := False\<rparr>
                 else objs (set_ignore (metadata chip) False h) r) =
            (\<lambda>r. if r \<in> set (order_refs cs (key # keys)) then (objs h r)\<lparr>ignore := False\<rparr> else objs h r)"
        by (rule ext) (simp add: order_refs_Cons Some set_ignore_def)
      with True Some show ?thesis
        using Cons.IH [of "waked @ [key]" "set_ignore (metadata chip) False h"]
        by (simp add: set_ignore_def)
    next
      case False
      have "(\<lambda>r. if r \<in> set (order_refs cs keys) then (objs h r)\<lparr>ignore := False\<rparr> else objs h r) =
            (\<lambda>r. if r \<in> set (order_refs cs (key # keys)) then (objs h r)\<lparr>ignore := False\<rparr> else objs h r)"
        by (rule ext) (simp add: order_refs_Cons Some clear_ignore_idem [OF False])
      with False Some show ?thesis
        using Cons.IH [of waked h] by simp
    qed
  qed
qed

lemma wakeup_all_loop_keys:
  "distinct (order_refs cs keys) \<Longrightarrow>
   fst (wakeup_all_loop (chips cs) keys waked h) = waked @ filter (ignored h cs) keys"
proof (induction keys arbitrary: waked h)
  case Nil
  then show ?case by simp
next
  case (Cons key keys)
  show ?case
  proof (cases "chips cs key")
    case None
    then have ik: "\<not> ignored h cs key" by (simp add: ignored_def)
    from None Cons show ?thesis by (simp add: order_refs_Cons ik)
  next
    case (Some chip)
    with Cons.prems have fresh: "metadata chip \<notin> set (order_refs cs keys)"
      and d: "distinct (order_refs cs keys)"
      by (simp_all add: order_refs_Cons)
    show ?thesis
    proof (cases "ignore (objs h (metadata chip))")
      case True
      have same: "filter (ignored (set_ignore (metadata chip) False h) cs) keys = filter (ignored h cs) keys"
      proof (rule filter_cong [OF refl])
        fix k assume k: "k \<in> set keys"
        show "ignored (set_ignore (metadata chip) False h) cs k = ignored h cs k"
        proof (cases "chips cs k")
          case None
          then show ?thesis by (simp add: ignored_def)
        next
          case (Some c)
          with k have "metadata c \<in> set (order_refs cs keys)"
            by (auto simp: set_order_refs)
          with fresh have "metadata c \<noteq> metadata chip" by auto
          with Some show ?thesis by (simp add: ignored_def set_ignore_def)
        qed
      qed
      have ik: "ignored h cs key" using True Some by (simp add: ignored_def)
      from True Some show ?thesis
        using Cons.IH [OF d, of "waked @ [key]" "set_ignore (metadata chip) False h"]
        by (simp add: same ik)
    next
      case False
      have ik: "\<not> ignored h cs key" using False Some by (simp add: ignored_def)
      from False Some show ?thesis using Cons.IH [OF d, of waked h] by (simp add: ik)
    qed
  qed
qed

lemma wakeup_all_eq:
  "wakeup_all self h =
     (Inr (fst (wakeup_all_loop (chips (sp_chips self)) (order (sp_chips self)) [] h)), self,
      snd (wakeup_all_loop (chips (sp_chips self)) (order (sp_chips self)) [] h))"
  by (simp add: wakeup_all_def split: prod.splits)

lemma prompt_abc_order: "order (sp_chips prompt_abc) = [''a'', ''b'', ''c'']"
  by (simp add: prompt_abc_def abc_dict_def empty_heap_def model_defs)

lemma prompt_abc_chips:
  "chips (sp_chips prompt_abc) =
     [''a'' \<mapsto> \<lparr>name = ''a'', content = ''A'', metadata = 0\<rparr>,
      ''b'' \<mapsto> \<lparr>name = ''b'', content = ''B'', metadata = 1\<rparr>,
      ''c'' \<mapsto> \<lparr>name = ''c'', content = ''C'', metadata = 2\<rparr>]"
  by (simp add: prompt_abc_def abc_dict_def empty_heap_def model_defs numeral_2_eq_2)

lemma heap_abc_ignore: "ignore (objs heap_abc r) = (r = 0 \<or> r = 1)"
  by (simp add: heap_abc_def abc_dict_def empty_heap_def model_defs)

lemma prompt_abc_refs: "order_refs (sp_chips prompt_abc) (order (sp_chips prompt_abc)) = [0, 1, 2]"
  by (simp add: order_refs_def prompt_abc_order prompt_abc_chips)

lemma prompt_abc_ignored:
  "ignored heap_abc (sp_chips prompt_abc) ''a''" "ignored heap_abc (sp_chips prompt_abc) ''b''"
  "\<not> ignored heap_abc (sp_chips prompt_abc) ''c''"
  by (simp_all add: ignored_def prompt_abc_chips heap_abc_ignore)

lemma prompt_shared_order: "order (sp_chips prompt_shared) = [''default'', ''b'', ''c'']"
  by (simp add: prompt_shared_def shared_steps_def heap_b_def chip_b_def empty_heap_def add_def
      ignore_chip_def model_defs)

lemma prompt_shared_chips:
  "chips (sp_chips prompt_shared) =
     [''default'' \<mapsto> \<lparr>name = ''default'', content = ''x'', metadata = 1\<rparr>,
      ''b'' \<mapsto> \<lparr>name = ''b'', content = ''B'', metadata = 0\<rparr>,
      ''c'' \<mapsto> \<lparr>name = ''c'', content = ''B'', metadata = 0\<rparr>]"
  by (simp add: prompt_shared_def shared_steps_def heap_b_def chip_b_def empty_heap_def add_def
      ignore_chip_def model_defs)

lemma heap_shared_ignore: "ignore (objs heap_shared r) = (r = 0)"
  by (simp add: heap_shared_def shared_steps_def heap_b_def chip_b_def empty_heap_def add_def
      ignore_chip_def model_defs)

subsection \<open>Index bounds of insert and move\<close>

text \<open>
  C3. With \<open>key\<close> absent from \<open>chips\<close>, a successful \<open>insert\<close> had
  \<open>0 \<le> i \<le> len(order)\<close> and makes order one longer; an index outside that range
  raises the invalid-index error (IndexRangeError) with the composer unchanged, and with a
  string content every index inside it succeeds. With \<open>key\<close> in \<open>chips\<close> and in
  \<open>order\<close>, a successful \<open>move\<close> had \<open>0 \<le> i \<le> len(order) - 1\<close> and
  keeps the length of order; an index outside that range raises the invalid-index error, and
  every index inside it succeeds. The upper bound of insert is \<open>len(order)\<close>, that of
  move is \<open>len(order) - 1\<close>.
\<close>

theorem insert_move_index_bounds:
  fixes self :: SystemPrompt and i :: int
  defines "n \<equiv> int (length (order (sp_chips self)))"
  shows
  "(chips (sp_chips self) key = None \<longrightarrow>
      (\<forall>chip self' h'. insert_chip key c i self h = (Inr chip, self', h') \<longrightarrow>
         0 \<le> i \<and> i \<le> n \<and> length (order (sp_chips self')) = length (order (sp_chips self)) + 1) \<and>
      (i < 0 \<or> i > n \<longrightarrow> insert_chip key c i self h = (Inl (InvalidIndex i n), self, h)) \<and>
      (0 \<le> i \<and> i \<le> n \<longrightarrow> (\<exists>chip self' h'. insert_chip key (Str s) i self h = (Inr chip, self', h')))) \<and>
   (chips (sp_chips self) key \<noteq> None \<and> key \<in> set (order (sp_chips self)) \<longrightarrow>
      (\<forall>self' h'. move key i self h = (Inr (), self', h') \<longrightarrow>
         0 \<le> i \<and> i \<le> n - 1 \<and> length (order (sp_chips self')) = length (order (sp_chips self))) \<and>
      (i < 0 \<or> i > n - 1 \<longrightarrow> move key i self h = (Inl (InvalidIndex i (n - 1)), self, h)) \<and>
      (0 \<le> i \<and> i \<le> n - 1 \<longrightarrow> (\<exists>self'. move key i self h = (Inr (), self', h))))"
proof -
  have ins_len: "0 \<le> i \<and> i \<le> n \<and> length (order (sp_chips self')) = length (order (sp_chips self)) + 1"
    if "insert_chip key c i self h = (Inr chip, self', h')" for chip self' h'
    using insert_chip_success_order [OF that] by (simp add: n_def length_list_insert)
  have ins_bad: "insert_chip key c i self h = (Inl (InvalidIndex i n), self, h)"
    if "chips (sp_chips self) key = None" "i < 0 \<or> i > n"
    using that by (auto simp: insert_chip_def n_def)
  have ins_ok: "\<exists>chip self' h'. insert_chip key (Str s) i self h = (Inr chip, self', h')"
    if "chips (sp_chips self) key = None" "0 \<le> i \<and> i \<le> n"
    using that by (simp add: insert_chip_def n_def build_chip_Str_eq)
  have mv_len: "0 \<le> i \<and> i \<le> n - 1 \<and> length (order (sp_chips self')) = length (order (sp_chips self))"
    if "move key i self h = (Inr (), self', h')" for self' h'
  proof -
    from move_success_order [OF that]
    have *: "0 \<le> i" "i < n" "key \<in> set (order (sp_chips self))"
      "order (sp_chips self') = list_insert i key (remove1 key (order (sp_chips self)))"
      by (simp_all add: n_def)
    from *(3) have "length (order (sp_chips self)) > 0" by (cases "order (sp_chips self)") auto
    with * show ?thesis by (simp add: length_list_insert length_remove1)
  qed
  have mv_bad: "move key i self h = (Inl (InvalidIndex i (n - 1)), self, h)"
    if "chips (sp_chips self) key \<noteq> None" "key \<in> set (order (sp_chips self))" "i < 0 \<or> i > n - 1"
    using that by (auto simp: move_def n_def)
  have mv_ok: "\<exists>self'. move key i self h = (Inr (), self', h)"
    if "chips (sp_chips self) key \<noteq> None" "key \<in> set (order (sp_chips self))" "0 \<le> i \<and> i \<le> n - 1"
    using that by (auto simp: move_def n_def)
  show ?thesis
    using ins_len ins_bad ins_ok mv_len mv_bad mv_ok by blast
qed


theorem insert_move_index_bounds_witness:
  "chips (sp_chips prompt_ab) ''x'' = None \<and>
   (\<exists>chip self' h'. insert_chip ''x'' (Str ''X'') 2 prompt_ab heap_ab = (Inr chip, self', h') \<and>
        length (order (sp_chips self')) = 3) \<and>
   insert_chip ''x'' (Str ''X'') 3 prompt_ab heap_ab = (Inl (InvalidIndex 3 2), prompt_ab, heap_ab) \<and>
   chips (sp_chips prompt_ab) ''a'' \<noteq> None \<and> ''a'' \<in> set (order (sp_chips prompt_ab)) \<and>
   (\<exists>self'. move ''a'' 1 prompt_ab heap_ab = (Inr (), self', heap_ab) \<and>
        length (order (sp_chips self')) = 2) \<and>
   move ''a'' 2 prompt_ab heap_ab = (Inl (InvalidIndex 2 1), prompt_ab, heap_ab)"
proof -
  note ins2 = insert_move_index_bounds
    [where self = prompt_ab and key = "''x''" and i = 2 and c = "Str ''X''" and s = "''X''" and h = heap_ab]
  note ins3 = insert_move_index_bounds
    [where self = prompt_ab and key = "''x''" and i = 3 and c = "Str ''X''" and h = heap_ab]
  note mv1 = insert_move_index_bounds
    [where self = prompt_ab and key = "''a''" and i = 1 and h = heap_ab]
  note mv2 = insert_move_index_bounds
    [where self = prompt_ab and key = "''a''" and i = 2 and h = heap_ab]
  have a: "chips (sp_chips prompt_ab) ''a'' \<noteq> None" by (rule prompt_ab_a)
  have x: "chips (sp_chips prompt_ab) ''x'' = None" by (rule prompt_ab_x)
  have o: "''a'' \<in> set (order (sp_chips prompt_ab))" by (simp add: prompt_ab_order)
  from ins2 x obtain chip self' h' where
    i2: "insert_chip ''x'' (Str ''X'') 2 prompt_ab heap_ab = (Inr chip, self', h')"
    by (auto simp: prompt_ab_order)
  with ins2 x have l2: "length (order (sp_chips self')) = 3"
    by (auto simp: prompt_ab_order)
  from ins3 x have i3: "insert_chip ''x'' (Str ''X'') 3 prompt_ab heap_ab = (Inl (InvalidIndex 3 2), prompt_ab, heap_ab)"
    by (simp add: prompt_ab_order)
  from mv1 a o obtain self'' where
    m1: "move ''a'' 1 prompt_ab heap_ab = (Inr (), self'', heap_ab)"
    by (auto simp: prompt_ab_order)
  with mv1 a o have lm: "length (order (sp_chips self'')) = 2"
    by (auto simp: prompt_ab_order)
  from mv2 a o have m2: "move ''a'' 2 prompt_ab heap_ab = (Inl (InvalidIndex 2 1), prompt_ab, heap_ab)"
    by (simp add: prompt_ab_order)
  from x a o i2 l2 i3 m1 lm m2 show ?thesis by blast
qed

subsection \<open>Insert with a dangling order entry\<close>

text \<open>
  C10. When \<open>key\<close> is absent from \<open>chips\<close> but occurs in \<open>order\<close>, an
  \<open>insert\<close> at a valid index whose content builds a chip succeeds and puts
  \<open>key\<close> into order at that index without looking at order: order then holds
  \<open>key\<close> once more than before, so at least twice. \<open>add\<close> in the same state
  tests order membership and leaves order as it was.
\<close>

theorem insert_dangling_key_duplicates:
  assumes absent: "chips (sp_chips self) key = None"
    and dangling: "key \<in> set (order (sp_chips self))"
    and range: "0 \<le> i" "i \<le> int (length (order (sp_chips self)))"
    and built: "build_chip key c h = (Inr chip, h')"
  shows
  "(\<exists>self'. insert_chip key c i self h = (Inr chip, self', h') \<and>
       order (sp_chips self') =
         take (nat i) (order (sp_chips self)) @ key # drop (nat i) (order (sp_chips self)) \<and>
       count_list (order (sp_chips self')) key = count_list (order (sp_chips self)) key + 1 \<and>
       2 \<le> count_list (order (sp_chips self')) key) \<and>
   (\<exists>self'. add key c self h = (Inr chip, self', h') \<and>
       order (sp_chips self') = order (sp_chips self))"
proof -
  define o' where "o' = take (nat i) (order (sp_chips self)) @ key # drop (nat i) (order (sp_chips self))"
  have cnt: "count_list o' key = count_list (order (sp_chips self)) key + 1"
    unfolding o'_def by (simp only: count_list_take_drop Suc_eq_plus1)
  have "count_list (order (sp_chips self)) key \<noteq> 0"
    using dangling by (simp add: count_list_0_iff)
  with cnt have two: "2 \<le> count_list o' key" by linarith
  have "insert_chip key c i self h = (Inr chip, set_order o' (store_chip key chip self), h')"
    unfolding o'_def by (rule insert_chip_ok [OF absent range built])
  moreover have "order (sp_chips (set_order o' (store_chip key chip self))) = o'"
    by simp
  ultimately have ins: "\<exists>self'. insert_chip key c i self h = (Inr chip, self', h') \<and>
       order (sp_chips self') = o' \<and>
       count_list (order (sp_chips self')) key = count_list (order (sp_chips self)) key + 1 \<and>
       2 \<le> count_list (order (sp_chips self')) key"
    using cnt two by (metis (no_types))
  have "\<exists>self'. add key c self h = (Inr chip, self', h') \<and>
       order (sp_chips self') = order (sp_chips self)"
    using add_ok [OF absent built] dangling by (simp add: order_append_if_missing)
  with ins show ?thesis unfolding o'_def by blast
qed

theorem insert_dangling_key_duplicates_witness:
  "chips (sp_chips prompt_dangling) ''default'' = None \<and>
   ''default'' \<in> set (order (sp_chips prompt_dangling)) \<and>
   (\<exists>chip self' h'. insert_chip ''default'' (Str ''X'') 1 prompt_dangling heap_dangling = (Inr chip, self', h') \<and>
       order (sp_chips self') = [''default'', ''default'']) \<and>
   (\<exists>chip self' h'. add ''default'' (Str ''X'') prompt_dangling heap_dangling = (Inr chip, self', h') \<and>
       order (sp_chips self') = [''default''])"
proof -
  have absent: "chips (sp_chips prompt_dangling) ''default'' = None"
    by (simp add: prompt_dangling_chips)
  have dangling: "''default'' \<in> set (order (sp_chips prompt_dangling))"
    by (simp add: prompt_dangling_order)
  have range: "(0::int) \<le> 1" "1 \<le> int (length (order (sp_chips prompt_dangling)))"
    by (simp_all add: prompt_dangling_order)
  note built = build_chip_Str_eq [of "''default''" "''X''" heap_dangling]
  from insert_dangling_key_duplicates [OF absent dangling range built] absent dangling
  show ?thesis by (auto simp: prompt_dangling_order)
qed

subsection \<open>Update\<close>

text \<open>
  C6, as the source has it. \<open>update\<close> raises nothing for a missing key: with a
  string content it always succeeds, and when it raises, the error is the one building the
  chip from the content raised (unsupported chip type or a validation error) and nothing has
  changed. On success the chip built from the content, the one \<open>insert\<close> would build,
  whose name is \<open>key\<close>, is stored under \<open>key\<close> in place of any chip that was
  there; order is unchanged when it holds \<open>key\<close> already, so \<open>key\<close> keeps its
  position, and has \<open>key\<close> appended otherwise.
\<close>

theorem update_upsert:
  "(\<exists>self' h'. update (Str s) key self h = (Inr (), self', h')) \<and>
   (\<forall>e self' h'. update c key self h = (Inl e, self', h') \<longrightarrow>
      build_chip key c h = (Inl e, h') \<and> (e = UnsupportedChipType key \<or> e = ValidationError) \<and>
      self' = self \<and> h' = h) \<and>
   (\<forall>self' h'. update c key self h = (Inr (), self', h') \<longrightarrow>
      (\<exists>chip. build_chip key c h = (Inr chip, h') \<and> name chip = key \<and>
         chips (sp_chips self') = (chips (sp_chips self))(key \<mapsto> chip) \<and>
         order (sp_chips self') =
           (if key \<in> set (order (sp_chips self)) then order (sp_chips self)
            else order (sp_chips self) @ [key]) \<and>
         splitter (sp_chips self') = splitter (sp_chips self) \<and>
         (\<forall>i chip1 self1 h1. insert_chip key c i self h = (Inr chip1, self1, h1) \<longrightarrow> chip1 = chip)))"
proof -
  have ok: "\<exists>self' h'. update (Str s) key self h = (Inr (), self', h')"
    by (simp add: update_def build_chip_Str_eq)
  have err: "build_chip key c h = (Inl e, h') \<and> (e = UnsupportedChipType key \<or> e = ValidationError) \<and>
      self' = self \<and> h' = h"
    if "update c key self h = (Inl e, self', h')" for e self' h'
  proof -
    from that have b: "build_chip key c h = (Inl e, h')" and s: "self' = self"
      by (auto simp: update_def split: prod.splits sum.splits)
    from build_chip_errors [OF b] b s show ?thesis by simp
  qed
  have suc: "\<exists>chip. build_chip key c h = (Inr chip, h') \<and> name chip = key \<and>
         chips (sp_chips self') = (chips (sp_chips self))(key \<mapsto> chip) \<and>
         order (sp_chips self') =
           (if key \<in> set (order (sp_chips self)) then order (sp_chips self)
            else order (sp_chips self) @ [key]) \<and>
         splitter (sp_chips self') = splitter (sp_chips self) \<and>
         (\<forall>i chip1 self1 h1. insert_chip key c i self h = (Inr chip1, self1, h1) \<longrightarrow> chip1 = chip)"
    if "update c key self h = (Inr (), self', h')" for self' h'
  proof -
    from that obtain chip where b: "build_chip key c h = (Inr chip, h')"
      and s: "self' = append_if_missing key (store_chip key chip self)"
      by (auto simp: update_def split: prod.splits sum.splits)
    have i: "chip1 = chip" if "insert_chip key c i self h = (Inr chip1, self1, h1)" for i chip1 self1 h1
      using that b by (auto simp: insert_chip_def split: if_splits prod.splits sum.splits)
    have sp: "splitter (sp_chips self') = splitter (sp_chips self)"
      by (simp add: s append_if_missing_def set_order_def store_chip_def)
    have ch: "chips (sp_chips self') = (chips (sp_chips self))(key \<mapsto> chip)"
      by (simp add: s append_if_missing_def)
    have od: "order (sp_chips self') =
           (if key \<in> set (order (sp_chips self)) then order (sp_chips self)
            else order (sp_chips self) @ [key])"
      by (simp add: s order_append_if_missing)
    from b build_chip_name [OF b] ch od sp i show ?thesis by blast
  qed
  from ok err suc show ?thesis by blast
qed

theorem update_upsert_witness:
  "(\<exists>self' h'. update (Str ''new content'') ''default'' prompt_ab heap_ab = (Inr (), self', h') \<and>
      order (sp_chips self') = [''a'', ''b'', ''default''] \<and>
      map_option content (chips (sp_chips self') ''default'') = Some ''new content'' \<and>
      (\<exists>self'' h''. update (Str ''newer'') ''default'' self' h' = (Inr (), self'', h'') \<and>
         order (sp_chips self'') = [''a'', ''b'', ''default''] \<and>
         map_option content (chips (sp_chips self'') ''default'') = Some ''newer''))"
proof -
  note u1 = update_upsert [where s = "''new content''" and c = "Str ''new content''" and key = "''default''"
      and self = prompt_ab and h = heap_ab]
  from u1 obtain self' h' where 1: "update (Str ''new content'') ''default'' prompt_ab heap_ab = (Inr (), self', h')"
    by blast
  with u1 obtain chip where c1: "build_chip ''default'' (Str ''new content'') heap_ab = (Inr chip, h')"
    and m1: "chips (sp_chips self') = (chips (sp_chips prompt_ab))(''default'' \<mapsto> chip)"
    and o1: "order (sp_chips self') = [''a'', ''b'', ''default'']"
    by (auto simp: prompt_ab_order)
  from c1 have ct1: "content chip = ''new content''"
    by (auto simp: build_chip_def new_chip_def alloc_def split: prod.splits)
  note u2 = update_upsert [where s = "''newer''" and c = "Str ''newer''" and key = "''default''"
      and self = self' and h = h']
  from u2 obtain self'' h'' where 2: "update (Str ''newer'') ''default'' self' h' = (Inr (), self'', h'')"
    by blast
  with u2 obtain chip2 where c2: "build_chip ''default'' (Str ''newer'') h' = (Inr chip2, h'')"
    and m2: "chips (sp_chips self'') = (chips (sp_chips self'))(''default'' \<mapsto> chip2)"
    and o2: "order (sp_chips self'') = [''a'', ''b'', ''default'']"
    by (auto simp: o1)
  from c2 have ct2: "content chip2 = ''newer''"
    by (auto simp: build_chip_def new_chip_def alloc_def split: prod.splits)
  from 1 2 o1 o2 m1 m2 ct1 ct2 show ?thesis by auto
qed

text \<open>
  C6 as stated says that \<open>key\<close> is appended to order whenever it is absent from
  \<open>chips\<close>. The source appends under \<open>if key not in self.chips.order\<close>: with
  a dangling order entry \<open>default\<close> and no chip, \<open>update("new content")\<close> leaves
  order as it was.
\<close>

theorem update_dangling_key_counterexample:
  "chips (sp_chips prompt_dangling) ''default'' = None \<and>
   order (sp_chips (fst (snd (update (Str ''new content'') ''default'' prompt_dangling heap_dangling)))) =
     order (sp_chips prompt_dangling) \<and>
   order (sp_chips (fst (snd (update (Str ''new content'') ''default'' prompt_dangling heap_dangling)))) \<noteq>
     order (sp_chips prompt_dangling) @ [''default'']"
  by (simp add: update_def build_chip_Str_eq order_append_if_missing prompt_dangling_order prompt_dangling_chips)


subsection \<open>Flat-text rendering\<close>

text \<open>
  C1. \<open>to_str\<close> is the spec's flat-text rendering: it joins with the splitter the
  contents of the keys of order, in sequence, whose chip exists and is not ignored. A key with
  no chip can be dropped from order anywhere without changing the output; a first key that is
  skipped (missing or ignored) contributes nothing, so with order a, b and only b surviving
  the output is the content of b with no splitter before it; and when no key of order
  survives the output is the empty string. \<open>to_str\<close> has no error result.
\<close>

theorem to_str_flat_text:
  "to_str h self = toFlatText h self \<and>
   (chips self key = None \<longrightarrow>
      to_str h (self\<lparr>order := xs @ key # ys\<rparr>) = to_str h (self\<lparr>order := xs @ ys\<rparr>)) \<and>
   (surviving_content h self a = None \<longrightarrow>
      to_str h (self\<lparr>order := a # rest\<rparr>) = to_str h (self\<lparr>order := rest\<rparr>)) \<and>
   (surviving_content h self a = None \<and> surviving_content h self b = Some text_b \<longrightarrow>
      to_str h (self\<lparr>order := [a, b]\<rparr>) = text_b) \<and>
   ((\<forall>k \<in> set (order self). surviving_content h self k = None) \<longrightarrow> to_str h self = [])"
proof -
  have refine: "to_str h self = toFlatText h self"
    using to_str_loop_eq [of h self "order self" "[]"] by (simp add: to_str_def toFlatText_def)
  have dangling: "to_str h (self\<lparr>order := xs @ key # ys\<rparr>) = to_str h (self\<lparr>order := xs @ ys\<rparr>)"
    if "chips self key = None"
  proof -
    from that have "surviving_content h self key = None" by (simp add: surviving_content_def)
    then show ?thesis by (simp add: to_str_order map_filter_append')
  qed
  have skipped: "to_str h (self\<lparr>order := a # rest\<rparr>) = to_str h (self\<lparr>order := rest\<rparr>)"
    if "surviving_content h self a = None"
    using that by (simp add: to_str_order)
  have first: "to_str h (self\<lparr>order := [a, b]\<rparr>) = text_b"
    if "surviving_content h self a = None \<and> surviving_content h self b = Some text_b"
    using that by (simp add: to_str_order)
  have none: "to_str h self = []" if "\<forall>k \<in> set (order self). surviving_content h self k = None"
    using that by (simp add: refine toFlatText_def map_filter_all_None)
  from refine dangling skipped first none show ?thesis by blast
qed

theorem to_str_flat_text_witness:
  "chips (sp_chips prompt_ab) ''ghost'' = None \<and>
   to_str heap_ab ((sp_chips prompt_ab)\<lparr>order := [''a'', ''ghost'', ''b'']\<rparr>) = ''A\<newline>\<newline>B'' \<and>
   surviving_content heap_a_ignored (sp_chips prompt_ab) ''a'' = None \<and>
   surviving_content heap_a_ignored (sp_chips prompt_ab) ''b'' = Some ''B'' \<and>
   to_str heap_a_ignored ((sp_chips prompt_ab)\<lparr>order := [''a'', ''b'']\<rparr>) = ''B'' \<and>
   to_str heap_a_ignored ((sp_chips prompt_ab)\<lparr>order := [''ghost'', ''a'']\<rparr>) = []"
proof -
  have ghost: "chips (sp_chips prompt_ab) ''ghost'' = None"
    by (simp add: prompt_ab_chips)
  have a: "surviving_content heap_a_ignored (sp_chips prompt_ab) ''a'' = None"
    by (simp add: surviving_content_def prompt_ab_chips heap_a_ignored_ignore)
  have b: "surviving_content heap_a_ignored (sp_chips prompt_ab) ''b'' = Some ''B''"
    by (simp add: surviving_content_def prompt_ab_chips heap_a_ignored_ignore)
  have g: "surviving_content heap_a_ignored ((sp_chips prompt_ab)\<lparr>order := [''ghost'', ''a'']\<rparr>) k = None"
    if "k \<in> set [''ghost'', ''a'']" for k
    using that by (auto simp: surviving_content_def prompt_ab_chips heap_a_ignored_ignore)
  have full: "to_str heap_ab ((sp_chips prompt_ab)\<lparr>order := [''a'', ''b'']\<rparr>) = ''A\<newline>\<newline>B''"
    using to_str_flat_text [of heap_ab "(sp_chips prompt_ab)\<lparr>order := [''a'', ''b'']\<rparr>"]
    by (simp add: toFlatText_def surviving_content_def prompt_ab_chips prompt_ab_splitter heap_ab_ignore)
  have 1: "to_str heap_ab ((sp_chips prompt_ab)\<lparr>order := [''a'', ''ghost'', ''b'']\<rparr>) = ''A\<newline>\<newline>B''"
    using to_str_flat_text [of heap_ab "sp_chips prompt_ab" "''ghost''" "[''a'']" "[''b'']"] ghost full
    by simp
  have 2: "to_str heap_a_ignored ((sp_chips prompt_ab)\<lparr>order := [''a'', ''b'']\<rparr>) = ''B''"
    using to_str_flat_text [where h = heap_a_ignored and self = "sp_chips prompt_ab" and a = "''a''"
        and b = "''b''" and text_b = "''B''"] a b
    by blast
  have 3: "to_str heap_a_ignored ((sp_chips prompt_ab)\<lparr>order := [''ghost'', ''a'']\<rparr>) = []"
  proof -
    have "\<forall>k \<in> set (order ((sp_chips prompt_ab)\<lparr>order := [''ghost'', ''a'']\<rparr>)).
        surviving_content heap_a_ignored ((sp_chips prompt_ab)\<lparr>order := [''ghost'', ''a'']\<rparr>) k = None"
      using g by simp
    with to_str_flat_text [where h = heap_a_ignored
        and self = "(sp_chips prompt_ab)\<lparr>order := [''ghost'', ''a'']\<rparr>"]
    show ?thesis by blast
  qed
  from ghost a b 1 2 3 show ?thesis by simp
qed

subsection \<open>The concrete scenario\<close>

text \<open>
  C2. The composer is constructed from the record with order a, b, splitter two newlines and
  chips a (content A) and b (content B). \<open>insert("x", "X", 1)\<close> succeeds and order is
  a, x, b; then \<open>move("x", 0)\<close> succeeds and order is x, a, b; flat-text rendering then
  gives X, two newlines, A, two newlines, B.
\<close>

theorem concrete_scenario:
  "\<exists>p0 h0 x p1 h1 p2 h2.
     init (PDict scenario_dict) None None empty_heap = (Inr p0, h0) \<and>
     insert_chip ''x'' (Str ''X'') 1 p0 h0 = (Inr x, p1, h1) \<and>
     order (sp_chips p1) = [''a'', ''x'', ''b''] \<and>
     move ''x'' 0 p1 h1 = (Inr (), p2, h2) \<and>
     order (sp_chips p2) = [''x'', ''a'', ''b''] \<and>
     to_str h2 (sp_chips p2) = ''X\<newline>\<newline>A\<newline>\<newline>B'' \<and>
     get_system_prompt p2 h2 TypeNone = Inr ''X\<newline>\<newline>A\<newline>\<newline>B''"
  by (simp add: fixture_defs model_defs insert_chip_def move_def list_insert_def get_system_prompt_def)

subsection \<open>Round trip of a plain string\<close>

text \<open>
  C8. For every string \<open>s\<close> and every store, constructing the composer from
  \<open>s\<close> alone succeeds and gives order \<open>[default]\<close>, splitter two newlines and
  the single chip \<open>default\<close> with content \<open>s\<close>; flat-text rendering with the
  default renderer, by \<open>to_str\<close> or by \<open>get_system_prompt\<close> with no mode or the
  flat-text mode, returns exactly \<open>s\<close>.
\<close>

theorem default_round_trip:
  "\<exists>self h'. init (PStr s) None None h = (Inr self, h') \<and>
     order (sp_chips self) = [DEFAULT_SYSTEM_PROMPT_CHIP_KEY] \<and>
     splitter (sp_chips self) = ''\<newline>\<newline>'' \<and>
     dom (chips (sp_chips self)) = {DEFAULT_SYSTEM_PROMPT_CHIP_KEY} \<and>
     map_option content (chips (sp_chips self) DEFAULT_SYSTEM_PROMPT_CHIP_KEY) = Some s \<and>
     map_option name (chips (sp_chips self) DEFAULT_SYSTEM_PROMPT_CHIP_KEY) = Some DEFAULT_SYSTEM_PROMPT_CHIP_KEY \<and>
     to_str h' (sp_chips self) = s \<and>
     get_system_prompt self h' TypeNone = Inr s \<and>
     get_system_prompt self h' (TypeEnum PromptType_STR) = Inr s \<and>
     get_system_prompt self h' (TypeStr ''str'') = Inr s"
  by (simp add: init_def chips_default_def chip_default_def new_chip_def alloc_def
      metadata_default_def to_str_def get_system_prompt_def)

theorem default_round_trip_witness:
  "\<exists>self h'. init (PStr ''You are a helpful assistant.'') None None empty_heap = (Inr self, h') \<and>
     order (sp_chips self) = [''default''] \<and>
     get_system_prompt self h' TypeNone = Inr ''You are a helpful assistant.''"
  using default_round_trip [of "''You are a helpful assistant.''" empty_heap]
  by (auto simp: DEFAULT_SYSTEM_PROMPT_CHIP_KEY_def)

subsection \<open>Dispatch on the mode\<close>

text \<open>
  C9. \<open>get_system_prompt\<close> renders flat text when the mode is missing, the enum value
  STR or the string \<open>str\<close>, and tagged markup when it is the enum value XML or the
  string \<open>xml\<close>; in both cases the override function given at construction is called
  when there is one, the default renderer otherwise. Every other mode value raises the
  unsupported-type error (InvalidModeError). Construction stores the two override arguments
  as they are given.
\<close>

theorem get_system_prompt_dispatch:
  "(type_arg = TypeNone \<or> type_arg = TypeEnum PromptType_STR \<or> type_arg = TypeStr ''str'' \<longrightarrow>
      (sp_to_str self = None \<longrightarrow> get_system_prompt self h type_arg = Inr (to_str h (sp_chips self))) \<and>
      (\<forall>f. sp_to_str self = Some f \<longrightarrow> get_system_prompt self h type_arg = Inr (f h (sp_chips self)))) \<and>
   (type_arg = TypeEnum PromptType_XML \<or> type_arg = TypeStr ''xml'' \<longrightarrow>
      (sp_to_xml self = None \<longrightarrow> get_system_prompt self h type_arg = Inr (to_xml h (sp_chips self))) \<and>
      (\<forall>f. sp_to_xml self = Some f \<longrightarrow> get_system_prompt self h type_arg = Inr (f h (sp_chips self)))) \<and>
   (type_arg \<noteq> TypeNone \<and> type_arg \<noteq> TypeEnum PromptType_STR \<and> type_arg \<noteq> TypeStr ''str'' \<and>
    type_arg \<noteq> TypeEnum PromptType_XML \<and> type_arg \<noteq> TypeStr ''xml'' \<longrightarrow>
      get_system_prompt self h type_arg = Inl UnsupportedPromptType) \<and>
   (\<forall>content_arg f g self' h'. init content_arg f g h = (Inr self', h') \<longrightarrow>
      sp_to_str self' = f \<and> sp_to_xml self' = g)"
  by (auto simp: get_system_prompt_def init_def split: prompt_value.splits prod.splits sum.splits)

theorem get_system_prompt_dispatch_witness:
  "get_system_prompt prompt_ab heap_ab TypeNone = Inr ''A\<newline>\<newline>B'' \<and>
   get_system_prompt prompt_ab heap_ab (TypeStr ''xml'') =
     Inr ''<a>\<newline>A\<newline></a>\<newline><b>\<newline>B\<newline></b>'' \<and>
   get_system_prompt prompt_ab heap_ab (TypeStr ''json'') = Inl UnsupportedPromptType \<and>
   get_system_prompt prompt_ab heap_ab TypeOther = Inl UnsupportedPromptType \<and>
   sp_to_str prompt_custom = Some custom_to_str \<and> sp_to_xml prompt_custom = Some custom_to_xml \<and>
   get_system_prompt prompt_custom heap_ab (TypeEnum PromptType_STR) = Inr ''custom: a, b'' \<and>
   get_system_prompt prompt_custom heap_ab (TypeEnum PromptType_XML) = Inr ''<custom/>''"
proof -
  note d = get_system_prompt_dispatch
  have ov: "sp_to_str prompt_custom = Some custom_to_str \<and> sp_to_xml prompt_custom = Some custom_to_xml"
    using d [where h = empty_heap] prompt_custom_eq by blast
  have 1: "get_system_prompt prompt_ab heap_ab TypeNone = Inr ''A\<newline>\<newline>B''"
    using d [where self = prompt_ab and h = heap_ab and type_arg = TypeNone] prompt_ab_renderers
    by (simp add: to_str_prompt_ab)
  have 2: "get_system_prompt prompt_ab heap_ab (TypeStr ''xml'') =
     Inr ''<a>\<newline>A\<newline></a>\<newline><b>\<newline>B\<newline></b>''"
    using d [where self = prompt_ab and h = heap_ab and type_arg = "TypeStr ''xml''"] prompt_ab_renderers
    by (simp add: to_xml_prompt_ab)
  have 3: "get_system_prompt prompt_ab heap_ab (TypeStr ''json'') = Inl UnsupportedPromptType"
    using d [where self = prompt_ab and h = heap_ab and type_arg = "TypeStr ''json''"] by simp
  have 4: "get_system_prompt prompt_ab heap_ab TypeOther = Inl UnsupportedPromptType"
    using d [where self = prompt_ab and h = heap_ab and type_arg = TypeOther] by simp
  have 5: "get_system_prompt prompt_custom heap_ab (TypeEnum PromptType_STR) = Inr ''custom: a, b''"
    using d [where self = prompt_custom and h = heap_ab and type_arg = "TypeEnum PromptType_STR"] ov
    by (simp add: custom_to_str_def prompt_custom_order)
  have 6: "get_system_prompt prompt_custom heap_ab (TypeEnum PromptType_XML) = Inr ''<custom/>''"
    using d [where self = prompt_custom and h = heap_ab and type_arg = "TypeEnum PromptType_XML"] ov
    by (simp add: custom_to_xml_def)
  from ov 1 2 3 4 5 6 show ?thesis by blast
qed

subsection \<open>Chip names and keys\<close>

text \<open>
  The paths that run \<open>_normalize_chip\<close> or build the chip themselves. Construction from
  a plain string always succeeds and leaves every chip named by its key; so does a successful
  construction from a structured record. add, insert, update, move, remove, ignore, wakeup,
  wakeup_all, toggle, and replace_chips with a string or a record keep the invariant of a
  composer that has it, whether they succeed or raise. Normalising a chip instance under a
  key gives a chip whose name is the key, with the content and the metadata object of the
  given one, and changes nothing in the store: the correction is a copy. The branch for an
  existing \<open>SystemPromptChipsSchema\<close>, in \<open>__init__\<close> and in
  \<open>replace_chips\<close>, assigns the collection it is given.
\<close>

lemma normalising_paths_keep_names:
  "(\<exists>self h'. init (PStr s) f g h = (Inr self, h') \<and> names_ok (sp_chips self)) \<and>
   (\<forall>self h'. init (PDict d) f g h = (Inr self, h') \<longrightarrow> names_ok (sp_chips self)) \<and>
   init (PSchema cs) f g h = (Inr \<lparr>sp_chips = cs, sp_to_str = f, sp_to_xml = g\<rparr>, h) \<and>
   replace_chips (PSchema cs) self h = (Inr (), self\<lparr>sp_chips := cs\<rparr>, h) \<and>
   (names_ok (sp_chips self) \<longrightarrow>
      names_ok (sp_chips (fst (snd (add key c self h)))) \<and>
      names_ok (sp_chips (fst (snd (insert_chip key c i self h)))) \<and>
      names_ok (sp_chips (fst (snd (update c key self h)))) \<and>
      names_ok (sp_chips (fst (snd (move key i self h)))) \<and>
      names_ok (sp_chips (fst (snd (remove_chip key self h)))) \<and>
      names_ok (sp_chips (fst (snd (ignore_chip key self h)))) \<and>
      names_ok (sp_chips (fst (snd (wakeup key self h)))) \<and>
      names_ok (sp_chips (fst (snd (wakeup_all self h)))) \<and>
      names_ok (sp_chips (fst (snd (toggle key self h)))) \<and>
      names_ok (sp_chips (fst (snd (replace_chips (PStr s) self h)))) \<and>
      names_ok (sp_chips (fst (snd (replace_chips (PDict d) self h))))) \<and>
   (\<exists>chip. normalize_chip key (Chip given) h = (Inr chip, h) \<and>
      name chip = key \<and> content chip = content given \<and> metadata chip = metadata given)"
proof -
  have str: "\<exists>self h'. init (PStr s) f g h = (Inr self, h') \<and> names_ok (sp_chips self)"
  proof -
    obtain self h' where i: "init (PStr s) f g h = (Inr self, h')"
      by (cases "chips_default s h") (simp add: init_def)
    from init_names(1) [OF i] i show ?thesis by blast
  qed
  have dict: "\<forall>self h'. init (PDict d) f g h = (Inr self, h') \<longrightarrow> names_ok (sp_chips self)"
    using init_names(2) by blast
  have schema: "init (PSchema cs) f g h = (Inr \<lparr>sp_chips = cs, sp_to_str = f, sp_to_xml = g\<rparr>, h)"
    by (simp add: init_def)
  have repl: "replace_chips (PSchema cs) self h = (Inr (), self\<lparr>sp_chips := cs\<rparr>, h)"
    by (simp add: replace_chips_def)
  have ops: "names_ok (sp_chips (fst (snd (add key c self h)))) \<and>
      names_ok (sp_chips (fst (snd (insert_chip key c i self h)))) \<and>
      names_ok (sp_chips (fst (snd (update c key self h)))) \<and>
      names_ok (sp_chips (fst (snd (move key i self h)))) \<and>
      names_ok (sp_chips (fst (snd (remove_chip key self h)))) \<and>
      names_ok (sp_chips (fst (snd (ignore_chip key self h)))) \<and>
      names_ok (sp_chips (fst (snd (wakeup key self h)))) \<and>
      names_ok (sp_chips (fst (snd (wakeup_all self h)))) \<and>
      names_ok (sp_chips (fst (snd (toggle key self h)))) \<and>
      names_ok (sp_chips (fst (snd (replace_chips (PStr s) self h)))) \<and>
      names_ok (sp_chips (fst (snd (replace_chips (PDict d) self h))))"
    if ok: "names_ok (sp_chips self)"
    using add_names [OF ok] insert_chip_names [OF ok] update_names [OF ok] move_names [OF ok]
      remove_chip_names [OF ok] replace_chips_names(1,2) [OF ok] ok
    by (simp add: flag_ops_self)
  have copy: "\<exists>chip. normalize_chip key (Chip given) h = (Inr chip, h) \<and>
      name chip = key \<and> content chip = content given \<and> metadata chip = metadata given"
    by simp
  from str dict schema repl ops copy show ?thesis by blast
qed

text \<open>
  C5. The claim holds on every path that normalises, and the source's own comment on the
  record form says the name of a chip must agree with its key. The branch of
  \<open>__init__\<close> and of \<open>replace_chips\<close> for an existing
  \<open>SystemPromptChipsSchema\<close> skips the normalisation: given the collection that holds
  \<open>chip_b\<close> (named b) under key a, construction succeeds and the chip under a is still
  named b, and so it is after \<open>replace_chips\<close> on another composer. The same chip
  given as a record is stored under a with the name a.
\<close>

theorem schema_branch_keeps_mismatched_name:
  "init (PSchema mismatched_schema) None None heap_b =
     (Inr \<lparr>sp_chips = mismatched_schema, sp_to_str = None, sp_to_xml = None\<rparr>, heap_b) \<and>
   map_option name (chips mismatched_schema ''a'') = Some ''b'' \<and>
   fst (replace_chips (PSchema mismatched_schema) prompt_x heap_x) = Inr () \<and>
   map_option name
     (chips (sp_chips (fst (snd (replace_chips (PSchema mismatched_schema) prompt_x heap_x)))) ''a'') =
     Some ''b'' \<and>
   \<not> isl (fst (init (PDict mismatched_dict) None None empty_heap)) \<and>
   map_option name
     (chips (sp_chips (projr (fst (init (PDict mismatched_dict) None None empty_heap)))) ''a'') =
     Some ''a''"
  by (simp add: init_def replace_chips_def mismatched_schema_def chip_b_def new_chip_def alloc_def
      mismatched_dict_def from_dict_def construct_chip_def rename_def empty_heap_def)

subsection \<open>Waking up all chips\<close>

text \<open>
  What \<open>wakeup_all\<close> does in every state: it never raises and leaves the chips mapping
  and order as they are; it clears \<open>ignore\<close> on the metadata object of every chip of a
  key of order and changes nothing else in the store, so afterwards no key of order is
  ignored. When the loop meets every metadata object once, the returned list is exactly the
  keys of order that were ignored before the call, in the sequence of order.
\<close>

lemma wakeup_all_wakes_order:
  "\<exists>ks h'. wakeup_all self h = (Inr ks, self, h') \<and>
     next_ref h' = next_ref h \<and>
     (\<forall>r. objs h' r =
        (if r \<in> set (order_refs (sp_chips self) (order (sp_chips self)))
         then (objs h r)\<lparr>ignore := False\<rparr> else objs h r)) \<and>
     (\<forall>key \<in> set (order (sp_chips self)). \<not> ignored h' (sp_chips self) key) \<and>
     (distinct (order_refs (sp_chips self) (order (sp_chips self))) \<longrightarrow>
        ks = filter (ignored h (sp_chips self)) (order (sp_chips self)))"
proof -
  let ?cs = "sp_chips self"
  let ?loop = "wakeup_all_loop (chips ?cs) (order ?cs) [] h"
  have hp: "snd ?loop =
     h\<lparr>objs := (\<lambda>r. if r \<in> set (order_refs ?cs (order ?cs)) then (objs h r)\<lparr>ignore := False\<rparr> else objs h r)\<rparr>"
    by (rule wakeup_all_loop_heap)
  have nr: "next_ref (snd ?loop) = next_ref h" by (simp add: hp)
  have ob: "\<forall>r. objs (snd ?loop) r =
        (if r \<in> set (order_refs ?cs (order ?cs)) then (objs h r)\<lparr>ignore := False\<rparr> else objs h r)"
    by (simp add: hp)
  have aw: "\<forall>key \<in> set (order ?cs). \<not> ignored (snd ?loop) ?cs key"
  proof
    fix key assume k: "key \<in> set (order ?cs)"
    show "\<not> ignored (snd ?loop) ?cs key"
    proof (cases "chips ?cs key")
      case None
      then show ?thesis by (simp add: ignored_def)
    next
      case (Some chip)
      with k have "metadata chip \<in> set (order_refs ?cs (order ?cs))"
        by (auto simp: set_order_refs)
      with ob Some show ?thesis by (simp add: ignored_def)
    qed
  qed
  have ks: "distinct (order_refs ?cs (order ?cs)) \<longrightarrow>
      fst ?loop = filter (ignored h ?cs) (order ?cs)"
    using wakeup_all_loop_keys [of ?cs "order ?cs" "[]" h] by simp
  from nr ob aw ks wakeup_all_eq [of self h] show ?thesis by blast
qed

text \<open>
  With a and b ignored, c awake and order a, b, c, each chip with a metadata object of its
  own, the call returns a, b and afterwards none of the three is ignored.
\<close>

lemma wakeup_all_concrete_case:
  "order (sp_chips prompt_abc) = [''a'', ''b'', ''c''] \<and>
   ignored heap_abc (sp_chips prompt_abc) ''a'' \<and>
   ignored heap_abc (sp_chips prompt_abc) ''b'' \<and>
   \<not> ignored heap_abc (sp_chips prompt_abc) ''c'' \<and>
   distinct (order_refs (sp_chips prompt_abc) (order (sp_chips prompt_abc))) \<and>
   (\<exists>h'. wakeup_all prompt_abc heap_abc = (Inr [''a'', ''b''], prompt_abc, h') \<and>
      \<not> ignored h' (sp_chips prompt_abc) ''a'' \<and>
      \<not> ignored h' (sp_chips prompt_abc) ''b'' \<and>
      \<not> ignored h' (sp_chips prompt_abc) ''c'')"
proof -
  have d: "distinct (order_refs (sp_chips prompt_abc) (order (sp_chips prompt_abc)))"
    by (simp add: prompt_abc_refs)
  from wakeup_all_wakes_order [of prompt_abc heap_abc] d
  obtain ks h' where w: "wakeup_all prompt_abc heap_abc = (Inr ks, prompt_abc, h')"
    and aw: "\<forall>key \<in> set (order (sp_chips prompt_abc)). \<not> ignored h' (sp_chips prompt_abc) key"
    and ks: "ks = filter (ignored heap_abc (sp_chips prompt_abc)) (order (sp_chips prompt_abc))"
    by blast
  from ks have "ks = [''a'', ''b'']"
    by (simp add: prompt_abc_order prompt_abc_ignored)
  with w aw d show ?thesis
    by (auto simp: prompt_abc_order prompt_abc_ignored)
qed

text \<open>
  C7. \<open>wakeup_all\<close> is documented to return the keys it woke up, and the test compares
  the returned keys with the set of ignored keys. \<open>_normalize_chip\<close> renames with
  \<open>model_copy(update={"name": key})\<close>, a shallow copy, so after
  \<open>add("b", chip_b); add("c", chip_b)\<close> the chips under b and c hold one metadata
  object. After \<open>ignore("b")\<close> both keys are ignored; \<open>wakeup_all\<close> clears the
  flag at b, finds it clear at c, and returns b alone, although c is awake afterwards too.
\<close>

theorem wakeup_all_misses_shared_key:
  "order (sp_chips prompt_shared) = [''default'', ''b'', ''c''] \<and>
   map_option metadata (chips (sp_chips prompt_shared) ''b'') =
     map_option metadata (chips (sp_chips prompt_shared) ''c'') \<and>
   ignored heap_shared (sp_chips prompt_shared) ''b'' \<and>
   ignored heap_shared (sp_chips prompt_shared) ''c'' \<and>
   fst (wakeup_all prompt_shared heap_shared) = Inr [''b''] \<and>
   \<not> ignored (snd (snd (wakeup_all prompt_shared heap_shared))) (sp_chips prompt_shared) ''b'' \<and>
   \<not> ignored (snd (snd (wakeup_all prompt_shared heap_shared))) (sp_chips prompt_shared) ''c''"
  by (simp add: wakeup_all_def prompt_shared_order prompt_shared_chips heap_shared_ignore
      ignored_def set_ignore_def)

end
